theory Spec2Isabelle
  imports Complex_Main "HOL-Library.Word"
begin

unbundle bit_operations_syntax

section \<open>Portable atomic operations of Mt-KaHyPar (atomic\_ops.h)\<close>

text \<open>
  The header gives one vocabulary of atomic operations over values of 1, 2, 4 or 8 bytes
  and implements it twice: on the \<open>_Interlocked*\<close> intrinsics under \<open>_MSC_VER\<close>, and on
  the \<open>__atomic_*\<close> builtins otherwise. The embedding is sequential: an atomic location
  is the value it holds, and an operation takes the value held before the call and gives
  the value it returns together with the value held after the call. A value of type \<open>T\<close>
  with \<open>sizeof(T) = w\<close> is a word of \<open>8 * w\<close> bits; signed and unsigned \<open>T\<close> share the
  bit pattern, and a \<open>static_cast\<close> between integer types of one width keeps it.
  Where the language or the compiler defines no result for an operation, its outcome is
  \<open>None\<close>. Visibility and ordering between threads are outside this embedding.

  The two branches of namespace \<open>detail\<close> define functions of the same names; here they
  carry the prefixes \<open>msvc_\<close> and \<open>gcc_\<close>. Compiler primitives lose their leading
  underscores (\<open>__atomic_load_n\<close> is \<open>builtin_atomic_load_n\<close>), and the parameter
  \<open>value\<close> is written \<open>val\<close>.
\<close>

subsection \<open>Memory orderings\<close>

datatype MemoryOrder = Relaxed | Acquire | Release | AcqRel | SeqCst

text \<open>
  The integer ordering codes \<open>__ATOMIC_*\<close>: predefined by GCC and Clang, and defined by
  the header itself (with the same values) under \<open>_MSC_VER\<close>.
\<close>

definition ATOMIC_RELAXED :: int where "ATOMIC_RELAXED = 0"
definition ATOMIC_CONSUME :: int where "ATOMIC_CONSUME = 1"
definition ATOMIC_ACQUIRE :: int where "ATOMIC_ACQUIRE = 2"
definition ATOMIC_RELEASE :: int where "ATOMIC_RELEASE = 3"
definition ATOMIC_ACQ_REL :: int where "ATOMIC_ACQ_REL = 4"
definition ATOMIC_SEQ_CST :: int where "ATOMIC_SEQ_CST = 5"

text \<open>
  \<open>mtk_map_gcc_order\<close>: a \<open>switch\<close> over the integer code with five \<open>case\<close> labels and
  a \<open>default\<close>. The labels are tried in the order of the source.
\<close>

definition mtk_map_gcc_order :: "int \<Rightarrow> MemoryOrder" where
  "mtk_map_gcc_order order =
     (if order = ATOMIC_RELAXED then Relaxed
      else if order = ATOMIC_ACQUIRE then Acquire
      else if order = ATOMIC_RELEASE then Release
      else if order = ATOMIC_ACQ_REL then AcqRel
      else if order = ATOMIC_SEQ_CST then SeqCst
      else SeqCst)"

text \<open>
  \<open>to_gcc_order\<close> of the GCC/Clang branch: a \<open>switch\<close> over the five enumerators (the
  \<open>return\<close> after it is not reached).
\<close>

definition to_gcc_order :: "MemoryOrder \<Rightarrow> int" where
  "to_gcc_order order =
     (case order of
        Relaxed \<Rightarrow> ATOMIC_RELAXED
      | Acquire \<Rightarrow> ATOMIC_ACQUIRE
      | Release \<Rightarrow> ATOMIC_RELEASE
      | AcqRel \<Rightarrow> ATOMIC_ACQ_REL
      | SeqCst \<Rightarrow> ATOMIC_SEQ_CST)"

subsection \<open>The primitives of the MSVC toolchain\<close>

text \<open>
  The intrinsics are the compiler's, not the header's; they are modelled after the
  vendor's description of them, on \<open>char\<close> (8 bits), \<open>short\<close> (16), \<open>long\<close> (32, the
  intrinsic without a suffix) and \<open>long long\<close> (64). The first argument is the value the
  location holds; the result is the pair of the value returned and the value the location
  holds afterwards.
\<close>

text \<open>
  \<open>_InterlockedOr8(Value, Mask)\<close> and its siblings (\<open>16\<close>, no suffix, \<open>64\<close>):
  ORs \<open>Mask\<close> into the location and returns the value held before.
\<close>

definition InterlockedOr8 :: "8 word \<Rightarrow> 8 word \<Rightarrow> 8 word \<times> 8 word" where
  "InterlockedOr8 Value Mask = (Value, Value OR Mask)"

definition InterlockedOr16 :: "16 word \<Rightarrow> 16 word \<Rightarrow> 16 word \<times> 16 word" where
  "InterlockedOr16 Value Mask = (Value, Value OR Mask)"

definition InterlockedOr :: "32 word \<Rightarrow> 32 word \<Rightarrow> 32 word \<times> 32 word" where
  "InterlockedOr Value Mask = (Value, Value OR Mask)"

definition InterlockedOr64 :: "64 word \<Rightarrow> 64 word \<Rightarrow> 64 word \<times> 64 word" where
  "InterlockedOr64 Value Mask = (Value, Value OR Mask)"

text \<open>
  \<open>_InterlockedXor8(Value, Mask)\<close> and its siblings (\<open>16\<close>, no suffix, \<open>64\<close>):
  XORs \<open>Mask\<close> into the location and returns the value held before.
\<close>

definition InterlockedXor8 :: "8 word \<Rightarrow> 8 word \<Rightarrow> 8 word \<times> 8 word" where
  "InterlockedXor8 Value Mask = (Value, Value XOR Mask)"

definition InterlockedXor16 :: "16 word \<Rightarrow> 16 word \<Rightarrow> 16 word \<times> 16 word" where
  "InterlockedXor16 Value Mask = (Value, Value XOR Mask)"

definition InterlockedXor :: "32 word \<Rightarrow> 32 word \<Rightarrow> 32 word \<times> 32 word" where
  "InterlockedXor Value Mask = (Value, Value XOR Mask)"

definition InterlockedXor64 :: "64 word \<Rightarrow> 64 word \<Rightarrow> 64 word \<times> 64 word" where
  "InterlockedXor64 Value Mask = (Value, Value XOR Mask)"

text \<open>
  \<open>_InterlockedExchange8(Target, Value)\<close> and its siblings (\<open>16\<close>, no suffix, \<open>64\<close>):
  stores \<open>Value\<close> and returns the value held before.
\<close>

definition InterlockedExchange8 :: "8 word \<Rightarrow> 8 word \<Rightarrow> 8 word \<times> 8 word" where
  "InterlockedExchange8 Target Val = (Target, Val)"

definition InterlockedExchange16 :: "16 word \<Rightarrow> 16 word \<Rightarrow> 16 word \<times> 16 word" where
  "InterlockedExchange16 Target Val = (Target, Val)"

definition InterlockedExchange :: "32 word \<Rightarrow> 32 word \<Rightarrow> 32 word \<times> 32 word" where
  "InterlockedExchange Target Val = (Target, Val)"

definition InterlockedExchange64 :: "64 word \<Rightarrow> 64 word \<Rightarrow> 64 word \<times> 64 word" where
  "InterlockedExchange64 Target Val = (Target, Val)"

text \<open>
  \<open>_InterlockedExchangeAdd8(Addend, Value)\<close> and its siblings (\<open>16\<close>, no suffix,
  \<open>64\<close>): adds \<open>Value\<close> to the location, wrapping at the width of the operand, and
  returns the value held before.
\<close>

definition InterlockedExchangeAdd8 :: "8 word \<Rightarrow> 8 word \<Rightarrow> 8 word \<times> 8 word" where
  "InterlockedExchangeAdd8 Addend Val = (Addend, Addend + Val)"

definition InterlockedExchangeAdd16 :: "16 word \<Rightarrow> 16 word \<Rightarrow> 16 word \<times> 16 word" where
  "InterlockedExchangeAdd16 Addend Val = (Addend, Addend + Val)"

definition InterlockedExchangeAdd :: "32 word \<Rightarrow> 32 word \<Rightarrow> 32 word \<times> 32 word" where
  "InterlockedExchangeAdd Addend Val = (Addend, Addend + Val)"

definition InterlockedExchangeAdd64 :: "64 word \<Rightarrow> 64 word \<Rightarrow> 64 word \<times> 64 word" where
  "InterlockedExchangeAdd64 Addend Val = (Addend, Addend + Val)"

text \<open>
  \<open>_InterlockedCompareExchange8(Destination, Exchange, Comparand)\<close> and its siblings
  (\<open>16\<close>, no suffix, \<open>64\<close>): stores \<open>Exchange\<close> if the location holds \<open>Comparand\<close>,
  leaves it as it is otherwise, and returns the value held before in both cases.
\<close>

definition InterlockedCompareExchange8 ::
  "8 word \<Rightarrow> 8 word \<Rightarrow> 8 word \<Rightarrow> 8 word \<times> 8 word" where
  "InterlockedCompareExchange8 Destination Exchange Comparand =
     (Destination, if Destination = Comparand then Exchange else Destination)"

definition InterlockedCompareExchange16 ::
  "16 word \<Rightarrow> 16 word \<Rightarrow> 16 word \<Rightarrow> 16 word \<times> 16 word" where
  "InterlockedCompareExchange16 Destination Exchange Comparand =
     (Destination, if Destination = Comparand then Exchange else Destination)"

definition InterlockedCompareExchange ::
  "32 word \<Rightarrow> 32 word \<Rightarrow> 32 word \<Rightarrow> 32 word \<times> 32 word" where
  "InterlockedCompareExchange Destination Exchange Comparand =
     (Destination, if Destination = Comparand then Exchange else Destination)"

definition InterlockedCompareExchange64 ::
  "64 word \<Rightarrow> 64 word \<Rightarrow> 64 word \<Rightarrow> 64 word \<times> 64 word" where
  "InterlockedCompareExchange64 Destination Exchange Comparand =
     (Destination, if Destination = Comparand then Exchange else Destination)"

text \<open>
  \<open>_ReadWriteBarrier()\<close> forbids the compiler to move memory accesses across it. It
  reads and writes nothing, so on the contents of the location it is the identity.
\<close>

definition ReadWriteBarrier :: "'s \<Rightarrow> 's" where
  "ReadWriteBarrier s = s"

text \<open>
  A call \<open>static_cast<T>(_InterlockedXxx(reinterpret_cast<volatile C*>(ptr), ...))\<close>:
  the location of type \<open>T\<close> is accessed as a location of the intrinsic's type \<open>C\<close>, and
  the value returned is converted back to \<open>T\<close>. The conversions are those of the bit
  pattern (\<open>ucast\<close>); in every branch of the width dispatch \<open>T\<close> and \<open>C\<close> have the same
  width.
\<close>

definition interlocked ::
  "('c::len word \<Rightarrow> 'c word \<times> 'c word) \<Rightarrow> 'a::len word \<Rightarrow> 'a word \<times> 'a word" where
  "interlocked f ptr = (case f (ucast ptr) of (r, m) \<Rightarrow> (ucast r, ucast m))"

subsection \<open>The MSVC branch of namespace detail\<close>

text \<open>
  \<open>if constexpr (sizeof(T) == 1) ... else if (== 2) ... else if (== 4) ... else ...\<close> is
  the test of \<open>LENGTH('a)\<close> against 8, 16 and 32, with the 64-bit intrinsic in the last
  branch as in the source.
\<close>

definition msvc_atomic_load :: "'a::len word \<Rightarrow> MemoryOrder \<Rightarrow> 'a word \<times> 'a word" where
  "msvc_atomic_load ptr order =
     (let (v, ptr') =
            (if LENGTH('a) = 8 then
               interlocked (\<lambda>p. InterlockedOr8 p 0) ptr
             else if LENGTH('a) = 16 then
               interlocked (\<lambda>p. InterlockedOr16 p 0) ptr
             else if LENGTH('a) = 32 then
               interlocked (\<lambda>p. InterlockedOr p 0) ptr
             else
               interlocked (\<lambda>p. InterlockedOr64 p 0) ptr)
      in (v, if order = Acquire \<or> order = SeqCst \<or> order = AcqRel
             then ReadWriteBarrier ptr' else ptr'))"

definition msvc_atomic_store :: "'a::len word \<Rightarrow> 'a word \<Rightarrow> MemoryOrder \<Rightarrow> 'a word" where
  "msvc_atomic_store ptr val order =
     (let ptr0 = (if order = Release \<or> order = SeqCst \<or> order = AcqRel
                  then ReadWriteBarrier ptr else ptr)
      in snd (if LENGTH('a) = 8 then
                interlocked (\<lambda>p. InterlockedExchange8 p (ucast val)) ptr0
              else if LENGTH('a) = 16 then
                interlocked (\<lambda>p. InterlockedExchange16 p (ucast val)) ptr0
              else if LENGTH('a) = 32 then
                interlocked (\<lambda>p. InterlockedExchange p (ucast val)) ptr0
              else
                interlocked (\<lambda>p. InterlockedExchange64 p (ucast val)) ptr0))"

definition msvc_atomic_exchange ::
  "'a::len word \<Rightarrow> 'a word \<Rightarrow> MemoryOrder \<Rightarrow> 'a word \<times> 'a word" where
  "msvc_atomic_exchange ptr val order =
     (let ptr0 = (if order = Release \<or> order = SeqCst \<or> order = AcqRel
                  then ReadWriteBarrier ptr else ptr);
          (old_val, ptr') =
            (if LENGTH('a) = 8 then
               interlocked (\<lambda>p. InterlockedExchange8 p (ucast val)) ptr0
             else if LENGTH('a) = 16 then
               interlocked (\<lambda>p. InterlockedExchange16 p (ucast val)) ptr0
             else if LENGTH('a) = 32 then
               interlocked (\<lambda>p. InterlockedExchange p (ucast val)) ptr0
             else
               interlocked (\<lambda>p. InterlockedExchange64 p (ucast val)) ptr0)
      in (old_val, ptr'))"

definition msvc_atomic_fetch_add ::
  "'a::len word \<Rightarrow> 'a word \<Rightarrow> MemoryOrder \<Rightarrow> 'a word \<times> 'a word" where
  "msvc_atomic_fetch_add ptr val order =
     (if LENGTH('a) = 8 then
        interlocked (\<lambda>p. InterlockedExchangeAdd8 p (ucast val)) ptr
      else if LENGTH('a) = 16 then
        interlocked (\<lambda>p. InterlockedExchangeAdd16 p (ucast val)) ptr
      else if LENGTH('a) = 32 then
        interlocked (\<lambda>p. InterlockedExchangeAdd p (ucast val)) ptr
      else
        interlocked (\<lambda>p. InterlockedExchangeAdd64 p (ucast val)) ptr)"

text \<open>
  \<open>atomic_fetch_sub\<close> adds \<open>static_cast<T>(-static_cast<std::make_signed_t<T>>(value))\<close>.
  The operand is read as a signed number (\<open>sint\<close>) and negated. The negation is computed
  in \<open>int\<close> (32 bits) for 1 and 2 bytes, by integral promotion, and in \<open>long\<close> (32 bits)
  or \<open>long long\<close> (64 bits) for 4 and 8 bytes. Where the negated number is in the range of
  that type, the conversion to \<open>T\<close> reduces it modulo \<open>2 ^ (8 * sizeof(T))\<close>
  (\<open>word_of_int\<close>). Where it is not, which is the case of the least value of \<open>long\<close> or
  \<open>long long\<close>, the negation is a signed overflow, for which the language defines no
  result: \<open>None\<close>.
\<close>

definition negate_signed :: "'a::len word \<Rightarrow> 'a word option" where
  "negate_signed val =
     (let bits = (if LENGTH('a) < 32 then 32 else LENGTH('a));
          n = - sint val
      in if - (2 ^ (bits - 1)) \<le> n \<and> n < 2 ^ (bits - 1) then Some (word_of_int n)
         else None)"

text \<open>
  \<open>atomic_fetch_sub\<close> of the MSVC branch: \<open>Some\<close> of the value returned and the value
  the location holds afterwards, or \<open>None\<close> where the negation of the operand has no
  defined result.
\<close>

definition msvc_atomic_fetch_sub ::
  "'a::len word \<Rightarrow> 'a word \<Rightarrow> MemoryOrder \<Rightarrow> ('a word \<times> 'a word) option" where
  "msvc_atomic_fetch_sub ptr val order =
     (case negate_signed val of
        None \<Rightarrow> None
      | Some negated \<Rightarrow> Some (msvc_atomic_fetch_add ptr negated order))"

definition msvc_atomic_xor_fetch ::
  "'a::len word \<Rightarrow> 'a word \<Rightarrow> MemoryOrder \<Rightarrow> 'a word \<times> 'a word" where
  "msvc_atomic_xor_fetch ptr val order =
     (let (old_val, ptr') =
            (if LENGTH('a) = 8 then
               interlocked (\<lambda>p. InterlockedXor8 p (ucast val)) ptr
             else if LENGTH('a) = 16 then
               interlocked (\<lambda>p. InterlockedXor16 p (ucast val)) ptr
             else if LENGTH('a) = 32 then
               interlocked (\<lambda>p. InterlockedXor p (ucast val)) ptr
             else
               interlocked (\<lambda>p. InterlockedXor64 p (ucast val)) ptr)
      in (old_val XOR val, ptr'))"

text \<open>
  \<open>atomic_compare_exchange\<close> gives the boolean returned, the value the location holds
  afterwards and the value \<open>*expected\<close> holds afterwards. \<open>expected\<close> points to an object
  of its own, not to the atomic location.
\<close>

definition msvc_atomic_compare_exchange ::
  "'a::len word \<Rightarrow> 'a word \<Rightarrow> 'a word \<Rightarrow> MemoryOrder \<Rightarrow> MemoryOrder \<Rightarrow>
   bool \<times> 'a word \<times> 'a word" where
  "msvc_atomic_compare_exchange ptr expected desired success_order failure_order =
     (let (old_val, ptr') =
            (if LENGTH('a) = 8 then
               interlocked (\<lambda>p. InterlockedCompareExchange8 p (ucast desired) (ucast expected)) ptr
             else if LENGTH('a) = 16 then
               interlocked (\<lambda>p. InterlockedCompareExchange16 p (ucast desired) (ucast expected)) ptr
             else if LENGTH('a) = 32 then
               interlocked (\<lambda>p. InterlockedCompareExchange p (ucast desired) (ucast expected)) ptr
             else
               interlocked (\<lambda>p. InterlockedCompareExchange64 p (ucast desired) (ucast expected)) ptr)
      in if old_val = expected then (True, ptr', expected)
         else (False, ptr', old_val))"

subsection \<open>The primitives of the GCC/Clang toolchain\<close>

text \<open>
  The \<open>__atomic_*\<close> builtins are generic in the type of the location. They take the
  ordering as an integer code, which has no effect on the values (also where a builtin
  does not accept an ordering, as a load with a release ordering: the compilers then use
  the strongest one). On a signed type the arithmetic wraps in two's complement, as the
  compilers document it.
\<close>

definition builtin_atomic_load_n :: "'a::len word \<Rightarrow> int \<Rightarrow> 'a word \<times> 'a word" where
  "builtin_atomic_load_n ptr memorder = (ptr, ptr)"

definition builtin_atomic_store_n :: "'a::len word \<Rightarrow> 'a word \<Rightarrow> int \<Rightarrow> 'a word" where
  "builtin_atomic_store_n ptr val memorder = val"

definition builtin_atomic_exchange_n ::
  "'a::len word \<Rightarrow> 'a word \<Rightarrow> int \<Rightarrow> 'a word \<times> 'a word" where
  "builtin_atomic_exchange_n ptr val memorder = (ptr, val)"

definition builtin_atomic_fetch_add ::
  "'a::len word \<Rightarrow> 'a word \<Rightarrow> int \<Rightarrow> 'a word \<times> 'a word" where
  "builtin_atomic_fetch_add ptr val memorder = (ptr, ptr + val)"

definition builtin_atomic_fetch_sub ::
  "'a::len word \<Rightarrow> 'a word \<Rightarrow> int \<Rightarrow> 'a word \<times> 'a word" where
  "builtin_atomic_fetch_sub ptr val memorder = (ptr, ptr - val)"

definition builtin_atomic_xor_fetch ::
  "'a::len word \<Rightarrow> 'a word \<Rightarrow> int \<Rightarrow> 'a word \<times> 'a word" where
  "builtin_atomic_xor_fetch ptr val memorder = (ptr XOR val, ptr XOR val)"

text \<open>
  \<open>__atomic_compare_exchange(ptr, expected, desired, weak, success, failure)\<close> in its
  strong form, the one the header asks for (it passes \<open>false\<close> for \<open>weak\<close>): if the
  location holds \<open>*expected\<close> it receives \<open>*desired\<close> and the result is true; otherwise
  \<open>*expected\<close> receives the value of the location and the result is false.
\<close>

definition builtin_atomic_compare_exchange ::
  "'a::len word \<Rightarrow> 'a word \<Rightarrow> 'a word \<Rightarrow> int \<Rightarrow> int \<Rightarrow> bool \<times> 'a word \<times> 'a word" where
  "builtin_atomic_compare_exchange ptr expected desired success_memorder failure_memorder =
     (if ptr = expected then (True, desired, expected) else (False, ptr, ptr))"

subsection \<open>The GCC/Clang branch of namespace detail\<close>

definition gcc_atomic_load :: "'a::len word \<Rightarrow> MemoryOrder \<Rightarrow> 'a word \<times> 'a word" where
  "gcc_atomic_load ptr order = builtin_atomic_load_n ptr (to_gcc_order order)"

definition gcc_atomic_store :: "'a::len word \<Rightarrow> 'a word \<Rightarrow> MemoryOrder \<Rightarrow> 'a word" where
  "gcc_atomic_store ptr val order = builtin_atomic_store_n ptr val (to_gcc_order order)"

definition gcc_atomic_exchange ::
  "'a::len word \<Rightarrow> 'a word \<Rightarrow> MemoryOrder \<Rightarrow> 'a word \<times> 'a word" where
  "gcc_atomic_exchange ptr val order = builtin_atomic_exchange_n ptr val (to_gcc_order order)"

definition gcc_atomic_fetch_add ::
  "'a::len word \<Rightarrow> 'a word \<Rightarrow> MemoryOrder \<Rightarrow> 'a word \<times> 'a word" where
  "gcc_atomic_fetch_add ptr val order = builtin_atomic_fetch_add ptr val (to_gcc_order order)"

definition gcc_atomic_fetch_sub ::
  "'a::len word \<Rightarrow> 'a word \<Rightarrow> MemoryOrder \<Rightarrow> 'a word \<times> 'a word" where
  "gcc_atomic_fetch_sub ptr val order = builtin_atomic_fetch_sub ptr val (to_gcc_order order)"

definition gcc_atomic_xor_fetch ::
  "'a::len word \<Rightarrow> 'a word \<Rightarrow> MemoryOrder \<Rightarrow> 'a word \<times> 'a word" where
  "gcc_atomic_xor_fetch ptr val order = builtin_atomic_xor_fetch ptr val (to_gcc_order order)"

definition gcc_atomic_compare_exchange ::
  "'a::len word \<Rightarrow> 'a word \<Rightarrow> 'a word \<Rightarrow> MemoryOrder \<Rightarrow> MemoryOrder \<Rightarrow>
   bool \<times> 'a word \<times> 'a word" where
  "gcc_atomic_compare_exchange ptr expected desired success_order failure_order =
     builtin_atomic_compare_exchange ptr expected desired
       (to_gcc_order success_order) (to_gcc_order failure_order)"

subsection \<open>The public operations\<close>

text \<open>
  \<open>#ifdef _MSC_VER\<close> selects one of the two branches when the header is compiled; the
  public functions forward to the branch selected. The selection is the parameter
  \<open>tc\<close>.
\<close>

datatype toolchain = MSVC | GCC

definition mtk_atomic_load ::
  "toolchain \<Rightarrow> 'a::len word \<Rightarrow> MemoryOrder \<Rightarrow> 'a word \<times> 'a word" where
  "mtk_atomic_load tc ptr order =
     (case tc of MSVC \<Rightarrow> msvc_atomic_load ptr order | GCC \<Rightarrow> gcc_atomic_load ptr order)"

definition mtk_atomic_store ::
  "toolchain \<Rightarrow> 'a::len word \<Rightarrow> 'a word \<Rightarrow> MemoryOrder \<Rightarrow> 'a word" where
  "mtk_atomic_store tc ptr val order =
     (case tc of MSVC \<Rightarrow> msvc_atomic_store ptr val order
               | GCC \<Rightarrow> gcc_atomic_store ptr val order)"

definition mtk_atomic_exchange ::
  "toolchain \<Rightarrow> 'a::len word \<Rightarrow> 'a word \<Rightarrow> MemoryOrder \<Rightarrow> 'a word \<times> 'a word" where
  "mtk_atomic_exchange tc ptr val order =
     (case tc of MSVC \<Rightarrow> msvc_atomic_exchange ptr val order
               | GCC \<Rightarrow> gcc_atomic_exchange ptr val order)"

definition mtk_atomic_fetch_add ::
  "toolchain \<Rightarrow> 'a::len word \<Rightarrow> 'a word \<Rightarrow> MemoryOrder \<Rightarrow> 'a word \<times> 'a word" where
  "mtk_atomic_fetch_add tc ptr val order =
     (case tc of MSVC \<Rightarrow> msvc_atomic_fetch_add ptr val order
               | GCC \<Rightarrow> gcc_atomic_fetch_add ptr val order)"

text \<open>
  \<open>mtk_atomic_fetch_sub\<close> has the result type of the MSVC branch; the GCC/Clang branch
  has a defined result for every operand.
\<close>

definition mtk_atomic_fetch_sub ::
  "toolchain \<Rightarrow> 'a::len word \<Rightarrow> 'a word \<Rightarrow> MemoryOrder \<Rightarrow> ('a word \<times> 'a word) option" where
  "mtk_atomic_fetch_sub tc ptr val order =
     (case tc of MSVC \<Rightarrow> msvc_atomic_fetch_sub ptr val order
               | GCC \<Rightarrow> Some (gcc_atomic_fetch_sub ptr val order))"

definition mtk_atomic_xor_fetch ::
  "toolchain \<Rightarrow> 'a::len word \<Rightarrow> 'a word \<Rightarrow> MemoryOrder \<Rightarrow> 'a word \<times> 'a word" where
  "mtk_atomic_xor_fetch tc ptr val order =
     (case tc of MSVC \<Rightarrow> msvc_atomic_xor_fetch ptr val order
               | GCC \<Rightarrow> gcc_atomic_xor_fetch ptr val order)"

definition mtk_atomic_compare_exchange ::
  "toolchain \<Rightarrow> 'a::len word \<Rightarrow> 'a word \<Rightarrow> 'a word \<Rightarrow> MemoryOrder \<Rightarrow> MemoryOrder \<Rightarrow>
   bool \<times> 'a word \<times> 'a word" where
  "mtk_atomic_compare_exchange tc ptr expected desired success_order failure_order =
     (case tc of
        MSVC \<Rightarrow> msvc_atomic_compare_exchange ptr expected desired success_order failure_order
      | GCC \<Rightarrow> gcc_atomic_compare_exchange ptr expected desired success_order failure_order)"

text \<open>
  \<open>mtk_atomic_compare_exchange_n\<close> takes \<open>expected\<close> by value and passes the address of
  its own copy, so the caller sees the boolean and the location only.
\<close>

definition mtk_atomic_compare_exchange_n ::
  "toolchain \<Rightarrow> 'a::len word \<Rightarrow> 'a word \<Rightarrow> 'a word \<Rightarrow> MemoryOrder \<Rightarrow> MemoryOrder \<Rightarrow>
   bool \<times> 'a word" where
  "mtk_atomic_compare_exchange_n tc ptr expected desired success_order failure_order =
     (case mtk_atomic_compare_exchange tc ptr expected desired success_order failure_order of
        (ok, ptr', expected') \<Rightarrow> (ok, ptr'))"

section \<open>Bit utilities (bitset\_utils)\<close>

text \<open>
  The number of zero bits below the lowest set bit, searched from bit 0 upwards over at
  most \<open>n\<close> positions. Both toolchains' bit scans compute it for a nonzero operand.
\<close>

fun trailing_zeros :: "nat \<Rightarrow> 'a::len word \<Rightarrow> nat" where
  "trailing_zeros 0 x = 0"
| "trailing_zeros (Suc n) x =
     (if bit x 0 then 0 else Suc (trailing_zeros n (drop_bit 1 x)))"

text \<open>
  \<open>_BitScanForward64(&Index, Mask)\<close>: returns nonzero and writes the position of the
  lowest set bit to \<open>Index\<close> if \<open>Mask\<close> has a set bit (\<open>Some\<close> of the position); returns
  0 and writes nothing if \<open>Mask\<close> is zero (\<open>None\<close>).
\<close>

definition BitScanForward64 :: "64 word \<Rightarrow> nat option" where
  "BitScanForward64 Mask = (if Mask = 0 then None else Some (trailing_zeros 64 Mask))"

text \<open>
  \<open>__builtin_ctzll(x)\<close>: the number of trailing zero bits of \<open>x\<close>; for \<open>x = 0\<close> the
  compilers define no result (\<open>None\<close>), and what the generated instruction leaves
  depends on the target.
\<close>

definition builtin_ctzll :: "64 word \<Rightarrow> int option" where
  "builtin_ctzll x = (if x = 0 then None else Some (int (trailing_zeros 64 x)))"

text \<open>
  \<open>lowest_set_bit_64\<close>: \<open>Some\<close> of the integer returned, or \<open>None\<close> where the function
  has no defined result. Under \<open>_MSC_VER\<close> the scan is tested and 64 is returned when
  it finds nothing; otherwise the builtin is called as it is.
\<close>

definition lowest_set_bit_64 :: "toolchain \<Rightarrow> 64 word \<Rightarrow> int option" where
  "lowest_set_bit_64 tc x =
     (case tc of
        MSVC \<Rightarrow> (case BitScanForward64 x of Some index \<Rightarrow> Some (int index) | None \<Rightarrow> Some 64)
      | GCC \<Rightarrow> builtin_ctzll x)"

text \<open>
  \<open>constexpr int log2(const int x) { return x <= 1 ? 0 : 1 + log2(x >> 1); }\<close> on the
  32-bit \<open>int\<close>: the comparison is signed, and the shift is applied to values greater
  than 1 only. The result is an integer without a bound; it is shown below to stay
  between 0 and 30, far inside the range of \<open>int\<close>. The termination proof is the
  well-foundedness of the recursion on \<open>x >> 1\<close>.
\<close>

function log2 :: "32 word \<Rightarrow> int" where
  "log2 x = (if x \<le>s 1 then 0 else 1 + log2 (signed_drop_bit 1 x))"
  by pat_completeness auto
termination
  by (relation "measure (\<lambda>x. nat (sint x))")
    (simp_all add: word_sle_eq sint_signed_drop_bit_eq drop_bit_eq_div)

declare log2.simps [simp del]

section \<open>Conversions between words of one width\<close>

text \<open>
  In each branch of the width dispatch the type of the location and the type of the
  intrinsic have the same number of bits; there the conversion is a bijection that commutes
  with the arithmetic and the bitwise operations.
\<close>

lemma ucast_same_len_roundtrip:
  "LENGTH('a::len) = LENGTH('c::len) \<Longrightarrow> ucast (ucast (x :: 'a word) :: 'c word) = x"
  by (simp add: ucast_up_ucast_id is_up)

lemma uint_ucast_same_len:
  "LENGTH('a::len) = LENGTH('c::len) \<Longrightarrow> uint (ucast (x :: 'a word) :: 'c word) = uint x"
  using uint_lt2p [of x] by (simp add: unsigned_ucast_eq take_bit_int_eq_self_iff)

lemma ucast_add_same_len:
  "LENGTH('a::len) = LENGTH('c::len) \<Longrightarrow>
   (ucast (x + y :: 'c word) :: 'a word) = ucast x + ucast y"
  by (simp add: word_uint_eq_iff uint_ucast_same_len uint_word_ariths)

lemma ucast_or_distrib:
  "(ucast (x OR y :: 'c::len word) :: 'a::len word) = ucast x OR ucast y"
  by (rule bit_word_eqI) (auto simp add: bit_simps)

lemma ucast_xor_distrib:
  "(ucast (x XOR y :: 'c::len word) :: 'a::len word) = ucast x XOR ucast y"
  by (rule bit_word_eqI) (auto simp add: bit_simps)

lemma ucast_eq_same_len:
  "LENGTH('a::len) = LENGTH('c::len) \<Longrightarrow>
   (ucast (x :: 'a word) :: 'c word) = ucast y \<longleftrightarrow> x = y"
  by (metis ucast_same_len_roundtrip)

lemmas interlocked_defs =
  InterlockedOr8_def InterlockedOr16_def InterlockedOr_def InterlockedOr64_def
  InterlockedXor8_def InterlockedXor16_def InterlockedXor_def InterlockedXor64_def
  InterlockedExchange8_def InterlockedExchange16_def InterlockedExchange_def
  InterlockedExchange64_def
  InterlockedExchangeAdd8_def InterlockedExchangeAdd16_def InterlockedExchangeAdd_def
  InterlockedExchangeAdd64_def
  InterlockedCompareExchange8_def InterlockedCompareExchange16_def
  InterlockedCompareExchange_def InterlockedCompareExchange64_def

lemmas same_len_casts =
  ucast_same_len_roundtrip ucast_add_same_len ucast_xor_distrib ucast_or_distrib
  ucast_eq_same_len

lemma width_cases:
  assumes "LENGTH('a::len) \<in> {8, 16, 32, 64}"
  obtains "LENGTH('a) = 8" | "LENGTH('a) = 16" | "LENGTH('a) = 32" | "LENGTH('a) = 64"
  using assms by auto

section \<open>What each operation computes\<close>

text \<open>
  The MSVC branch, with the width dispatch, the casts and the barriers resolved, for the
  four width classes.
\<close>

lemma msvc_atomic_load_eq:
  assumes "LENGTH('a::len) \<in> {8, 16, 32, 64}"
  shows "msvc_atomic_load (ptr :: 'a word) order = (ptr, ptr)"
  using assms
  by (rule width_cases)
    (simp_all add: msvc_atomic_load_def interlocked_defs interlocked_def same_len_casts
      ReadWriteBarrier_def)

lemma msvc_atomic_store_eq:
  assumes "LENGTH('a::len) \<in> {8, 16, 32, 64}"
  shows "msvc_atomic_store (ptr :: 'a word) v order = v"
  using assms
  by (rule width_cases)
    (simp_all add: msvc_atomic_store_def interlocked_defs interlocked_def same_len_casts
      ReadWriteBarrier_def)

lemma msvc_atomic_exchange_eq:
  assumes "LENGTH('a::len) \<in> {8, 16, 32, 64}"
  shows "msvc_atomic_exchange (ptr :: 'a word) v order = (ptr, v)"
  using assms
  by (rule width_cases)
    (simp_all add: msvc_atomic_exchange_def interlocked_defs interlocked_def same_len_casts
      ReadWriteBarrier_def)

lemma msvc_atomic_fetch_add_eq:
  assumes "LENGTH('a::len) \<in> {8, 16, 32, 64}"
  shows "msvc_atomic_fetch_add (ptr :: 'a word) v order = (ptr, ptr + v)"
  using assms
  by (rule width_cases)
    (simp_all add: msvc_atomic_fetch_add_def interlocked_defs interlocked_def same_len_casts)

text \<open>
  The negation is defined, and is the negation of the word, except at the least signed
  value of a 4- or 8-byte type.
\<close>

lemma negate_signed_eq:
  fixes v :: "'a::len word"
  assumes "LENGTH('a) \<in> {8, 16, 32, 64}"
  shows "negate_signed v =
         (if (LENGTH('a) = 32 \<or> LENGTH('a) = 64) \<and> sint v = - (2 ^ (LENGTH('a) - 1))
          then None else Some (- v))"
  using assms
proof (rule width_cases)
  assume "LENGTH('a) = 8"
  with sint_ge [of v] sint_lt [of v] show ?thesis
    by (simp add: negate_signed_def)
next
  assume "LENGTH('a) = 16"
  with sint_ge [of v] sint_lt [of v] show ?thesis
    by (simp add: negate_signed_def)
next
  assume "LENGTH('a) = 32"
  with sint_ge [of v] sint_lt [of v] show ?thesis
    by (auto simp add: negate_signed_def)
next
  assume "LENGTH('a) = 64"
  with sint_ge [of v] sint_lt [of v] show ?thesis
    by (auto simp add: negate_signed_def)
qed

lemma msvc_atomic_fetch_sub_eq:
  fixes ptr v :: "'a::len word"
  assumes "LENGTH('a) \<in> {8, 16, 32, 64}"
  shows "msvc_atomic_fetch_sub ptr v order =
         (if (LENGTH('a) = 32 \<or> LENGTH('a) = 64) \<and> sint v = - (2 ^ (LENGTH('a) - 1))
          then None else Some (ptr, ptr - v))"
  by (simp add: msvc_atomic_fetch_sub_def negate_signed_eq [OF assms]
      msvc_atomic_fetch_add_eq [OF assms])

lemma msvc_atomic_xor_fetch_eq:
  assumes "LENGTH('a::len) \<in> {8, 16, 32, 64}"
  shows "msvc_atomic_xor_fetch (ptr :: 'a word) v order = (ptr XOR v, ptr XOR v)"
  using assms
  by (rule width_cases)
    (simp_all add: msvc_atomic_xor_fetch_def interlocked_defs interlocked_def same_len_casts)

lemma msvc_atomic_compare_exchange_eq:
  assumes "LENGTH('a::len) \<in> {8, 16, 32, 64}"
  shows "msvc_atomic_compare_exchange (ptr :: 'a word) expected desired so fo =
         (if ptr = expected then (True, desired, expected) else (False, ptr, ptr))"
  using assms
  by (rule width_cases)
    (simp_all add: msvc_atomic_compare_exchange_def interlocked_defs interlocked_def
      same_len_casts)

lemmas gcc_defs =
  gcc_atomic_load_def gcc_atomic_store_def gcc_atomic_exchange_def gcc_atomic_fetch_add_def
  gcc_atomic_fetch_sub_def gcc_atomic_xor_fetch_def gcc_atomic_compare_exchange_def
  builtin_atomic_load_n_def builtin_atomic_store_n_def builtin_atomic_exchange_n_def
  builtin_atomic_fetch_add_def builtin_atomic_fetch_sub_def builtin_atomic_xor_fetch_def
  builtin_atomic_compare_exchange_def

lemmas msvc_eqs =
  msvc_atomic_load_eq msvc_atomic_store_eq msvc_atomic_exchange_eq msvc_atomic_fetch_add_eq
  msvc_atomic_xor_fetch_eq msvc_atomic_compare_exchange_eq

text \<open>The public operations, on either toolchain.\<close>

lemma mtk_atomic_load_eq:
  assumes "LENGTH('a::len) \<in> {8, 16, 32, 64}"
  shows "mtk_atomic_load tc (ptr :: 'a word) order = (ptr, ptr)"
  using assms by (cases tc) (simp_all add: mtk_atomic_load_def msvc_eqs gcc_defs)

lemma mtk_atomic_store_eq:
  assumes "LENGTH('a::len) \<in> {8, 16, 32, 64}"
  shows "mtk_atomic_store tc (ptr :: 'a word) v order = v"
  using assms by (cases tc) (simp_all add: mtk_atomic_store_def msvc_eqs gcc_defs)

lemma mtk_atomic_exchange_eq:
  assumes "LENGTH('a::len) \<in> {8, 16, 32, 64}"
  shows "mtk_atomic_exchange tc (ptr :: 'a word) v order = (ptr, v)"
  using assms by (cases tc) (simp_all add: mtk_atomic_exchange_def msvc_eqs gcc_defs)

lemma mtk_atomic_fetch_add_eq:
  assumes "LENGTH('a::len) \<in> {8, 16, 32, 64}"
  shows "mtk_atomic_fetch_add tc (ptr :: 'a word) v order = (ptr, ptr + v)"
  using assms by (cases tc) (simp_all add: mtk_atomic_fetch_add_def msvc_eqs gcc_defs)

lemma mtk_atomic_fetch_sub_eq:
  fixes ptr v :: "'a::len word"
  assumes "LENGTH('a) \<in> {8, 16, 32, 64}"
  shows "mtk_atomic_fetch_sub tc ptr v order =
         (if tc = MSVC \<and> (LENGTH('a) = 32 \<or> LENGTH('a) = 64) \<and>
             sint v = - (2 ^ (LENGTH('a) - 1))
          then None else Some (ptr, ptr - v))"
  by (cases tc)
    (simp_all add: mtk_atomic_fetch_sub_def msvc_atomic_fetch_sub_eq [OF assms] gcc_defs)

lemma mtk_atomic_xor_fetch_eq:
  assumes "LENGTH('a::len) \<in> {8, 16, 32, 64}"
  shows "mtk_atomic_xor_fetch tc (ptr :: 'a word) v order = (ptr XOR v, ptr XOR v)"
  using assms by (cases tc) (simp_all add: mtk_atomic_xor_fetch_def msvc_eqs gcc_defs)

lemma mtk_atomic_compare_exchange_eq:
  assumes "LENGTH('a::len) \<in> {8, 16, 32, 64}"
  shows "mtk_atomic_compare_exchange tc (ptr :: 'a word) expected desired so fo =
         (if ptr = expected then (True, desired, expected) else (False, ptr, ptr))"
  using assms
  by (cases tc) (simp_all add: mtk_atomic_compare_exchange_def msvc_eqs gcc_defs)

section \<open>The two toolchain branches compared\<close>

text \<open>
  For every width class, ordering, value of the location and operand, the MSVC branch and
  the GCC/Clang branch of namespace \<open>detail\<close> return the same value and leave the same
  value in the location (and in \<open>*expected\<close>) for load, store, exchange, fetch\_add,
  xor\_fetch and compare\_exchange, and for fetch\_sub wherever the negation of the MSVC
  branch has a defined result.
\<close>

lemma toolchains_agree:
  fixes ptr val expected desired :: "'a::len word"
  assumes "LENGTH('a) \<in> {8, 16, 32, 64}"
  shows "msvc_atomic_load ptr order = gcc_atomic_load ptr order \<and>
         msvc_atomic_store ptr val order = gcc_atomic_store ptr val order \<and>
         msvc_atomic_exchange ptr val order = gcc_atomic_exchange ptr val order \<and>
         msvc_atomic_fetch_add ptr val order = gcc_atomic_fetch_add ptr val order \<and>
         (negate_signed val \<noteq> None \<longrightarrow>
            msvc_atomic_fetch_sub ptr val order = Some (gcc_atomic_fetch_sub ptr val order)) \<and>
         msvc_atomic_xor_fetch ptr val order = gcc_atomic_xor_fetch ptr val order \<and>
         msvc_atomic_compare_exchange ptr expected desired success_order failure_order =
           gcc_atomic_compare_exchange ptr expected desired success_order failure_order"
  using assms
  by (simp add: msvc_eqs msvc_atomic_fetch_sub_eq [OF assms] negate_signed_eq [OF assms]
      gcc_defs)

text \<open>
  C1: the two branches are to return the same value and leave the same value in the
  location for every operation, width class, ordering, value of the location and operand.
  For fetch\_sub on an 8-byte location with the operand \<open>0x8000000000000000\<close>, the least
  value of \<open>long long\<close>, the MSVC branch negates the operand in the signed type, a signed
  overflow with no defined result, while the GCC/Clang branch returns the value held
  before, 7, and leaves the difference modulo \<open>2 ^ 64\<close>.
\<close>

theorem fetch_sub_toolchains_differ:
  "msvc_atomic_fetch_sub (7 :: 64 word) 0x8000000000000000 SeqCst = None \<and>
   gcc_atomic_fetch_sub (7 :: 64 word) 0x8000000000000000 SeqCst = (7, 0x8000000000000007)"
  by (simp add: msvc_atomic_fetch_sub_def negate_signed_def gcc_defs)

section \<open>Compare and exchange\<close>

text \<open>
  C2: on either toolchain, for every width class and every pair of orderings: if the
  location holds \<open>*expected\<close>, compare\_exchange returns true, the location holds
  \<open>desired\<close> and \<open>*expected\<close> is unchanged; otherwise it returns false, the location
  still holds its value \<open>V\<close> and \<open>*expected\<close> holds \<open>V\<close>.
\<close>

theorem compare_exchange_strong:
  fixes V expected desired :: "'a::len word"
  assumes "LENGTH('a) \<in> {8, 16, 32, 64}"
  shows "(V = expected \<longrightarrow>
            mtk_atomic_compare_exchange tc V expected desired success_order failure_order =
              (True, desired, expected)) \<and>
         (V \<noteq> expected \<longrightarrow>
            mtk_atomic_compare_exchange tc V expected desired success_order failure_order =
              (False, V, V))"
  using assms by (simp add: mtk_atomic_compare_exchange_eq)

text \<open>Both branches of C2 at a 2-byte location, on both toolchains.\<close>

theorem compare_exchange_strong_witness:
  "LENGTH(16) \<in> {8::nat, 16, 32, 64} \<and>
   mtk_atomic_compare_exchange MSVC (5 :: 16 word) 5 9 SeqCst Relaxed = (True, 9, 5) \<and>
   mtk_atomic_compare_exchange GCC (5 :: 16 word) 5 9 SeqCst Relaxed = (True, 9, 5) \<and>
   (6 :: 16 word) \<noteq> 5 \<and>
   mtk_atomic_compare_exchange MSVC (6 :: 16 word) 5 9 AcqRel Acquire = (False, 6, 6) \<and>
   mtk_atomic_compare_exchange GCC (6 :: 16 word) 5 9 AcqRel Acquire = (False, 6, 6)"
proof -
  have w: "LENGTH(16) \<in> {8::nat, 16, 32, 64}" by simp
  show ?thesis
    using w
      compare_exchange_strong [OF w, of 5 5 MSVC 9 SeqCst Relaxed]
      compare_exchange_strong [OF w, of 5 5 GCC 9 SeqCst Relaxed]
      compare_exchange_strong [OF w, of 6 5 MSVC 9 AcqRel Acquire]
      compare_exchange_strong [OF w, of 6 5 GCC 9 AcqRel Acquire]
    by simp
qed

section \<open>Wrapping addition and subtraction\<close>

text \<open>
  On either toolchain and for every width class \<open>w\<close>, fetch\_add returns the value held
  before and leaves the sum modulo \<open>2 ^ (8 * w)\<close>. So does fetch\_sub with the difference,
  on the GCC/Clang toolchain for every operand, and on the MSVC toolchain for every operand
  whose negation has a defined result.
\<close>

lemma fetch_add_wraps:
  fixes old delta :: "'a::len word"
  assumes "LENGTH('a) \<in> {8, 16, 32, 64}"
  shows "fst (mtk_atomic_fetch_add tc old delta order) = old \<and>
         uint (snd (mtk_atomic_fetch_add tc old delta order)) =
           (uint old + uint delta) mod 2 ^ LENGTH('a)"
  using assms by (simp add: mtk_atomic_fetch_add_eq uint_word_ariths)

lemma fetch_sub_wraps_where_defined:
  fixes old delta :: "'a::len word"
  assumes "LENGTH('a) \<in> {8, 16, 32, 64}"
    and "tc = GCC \<or> negate_signed delta \<noteq> None"
  shows "\<exists>new. mtk_atomic_fetch_sub tc old delta order = Some (old, new) \<and>
           uint new = (uint old - uint delta) mod 2 ^ LENGTH('a)"
  using assms(2)
  by (auto simp add: mtk_atomic_fetch_sub_eq [OF assms(1)] negate_signed_eq [OF assms(1)]
      uint_word_ariths split: if_splits)

text \<open>
  At the least signed value of a 1-byte type the negation is computed in \<open>int\<close> and is
  defined: the MSVC branch wraps there as the GCC/Clang branch does.
\<close>

lemma fetch_sub_narrow_least_signed:
  "mtk_atomic_fetch_sub MSVC (1 :: 8 word) 0x80 Relaxed = Some (1, 0x81) \<and>
   mtk_atomic_fetch_sub GCC (1 :: 8 word) 0x80 Relaxed = Some (1, 0x81)"
  by (simp add: mtk_atomic_fetch_sub_eq)

text \<open>
  C4: fetch\_add and fetch\_sub are to wrap modulo \<open>2 ^ (8 * w)\<close>, return the value held
  before and never fault, also with the least value of the signed range as the operand.
  For fetch\_sub on a 4-byte location with the operand \<open>0x80000000\<close>, the least value of
  \<open>long\<close>, the MSVC branch negates the operand in the signed type: a signed overflow,
  which has no defined result and no wrapped value to return. The builtin of the
  GCC/Clang branch subtracts directly and wraps.
\<close>

theorem fetch_sub_least_signed_overflow:
  "mtk_atomic_fetch_sub MSVC (1 :: 32 word) 0x80000000 Relaxed = None \<and>
   mtk_atomic_fetch_sub GCC (1 :: 32 word) 0x80000000 Relaxed = Some (1, 0x80000001)"
  by (simp add: mtk_atomic_fetch_sub_def msvc_atomic_fetch_sub_def negate_signed_def gcc_defs)

section \<open>Exclusive or\<close>

text \<open>
  C6: on either toolchain, for every width class, mask, ordering and value \<open>v\<close> of the
  location, xor\_fetch returns \<open>v XOR mask\<close>, the value after the operation, the location
  holds that value, and a second xor\_fetch with the same mask leaves \<open>v\<close> in the location.
\<close>

theorem xor_fetch_post_value:
  fixes v mask :: "'a::len word"
  assumes "LENGTH('a) \<in> {8, 16, 32, 64}"
  shows "mtk_atomic_xor_fetch tc v mask order = (v XOR mask, v XOR mask) \<and>
         snd (mtk_atomic_xor_fetch tc (snd (mtk_atomic_xor_fetch tc v mask order)) mask order')
           = v"
  using assms by (simp add: mtk_atomic_xor_fetch_eq xor.assoc)

text \<open>C6 at a 1-byte location: \<open>12 XOR 10 = 6\<close>, and back to 12.\<close>

theorem xor_fetch_post_value_witness:
  "LENGTH(8) \<in> {8::nat, 16, 32, 64} \<and>
   mtk_atomic_xor_fetch MSVC (12 :: 8 word) 10 Relaxed = (6, 6) \<and>
   mtk_atomic_xor_fetch GCC (12 :: 8 word) 10 Relaxed = (6, 6) \<and>
   snd (mtk_atomic_xor_fetch MSVC (snd (mtk_atomic_xor_fetch MSVC (12 :: 8 word) 10 Relaxed))
     10 SeqCst) = 12"
proof -
  have w: "LENGTH(8) \<in> {8::nat, 16, 32, 64}" by simp
  note m = xor_fetch_post_value [OF w, of MSVC 12 10 Relaxed SeqCst]
  note g = xor_fetch_post_value [OF w, of GCC 12 10 Relaxed SeqCst]
  have "mtk_atomic_xor_fetch MSVC (12 :: 8 word) 10 Relaxed = (6, 6)"
    using m by simp
  moreover have "mtk_atomic_xor_fetch GCC (12 :: 8 word) 10 Relaxed = (6, 6)"
    using g by simp
  ultimately show ?thesis
    using w m by blast
qed

section \<open>Addition followed by a load\<close>

text \<open>
  C7: on either toolchain, for every width class \<open>w\<close>, orderings, delta and value \<open>old\<close>
  of the location, fetch\_add returns \<open>old\<close>, and a load that follows returns
  \<open>old + delta\<close> reduced modulo \<open>2 ^ (8 * w)\<close>.
\<close>

theorem fetch_add_then_load:
  fixes old delta :: "'a::len word"
  assumes "LENGTH('a) \<in> {8, 16, 32, 64}"
  shows "fst (mtk_atomic_fetch_add tc old delta order) = old \<and>
         unat (fst (mtk_atomic_load tc (snd (mtk_atomic_fetch_add tc old delta order)) order'))
           = (unat old + unat delta) mod 2 ^ LENGTH('a)"
  using assms
  by (simp add: mtk_atomic_fetch_add_eq mtk_atomic_load_eq unat_word_ariths)

text \<open>C7 at a 1-byte location: 250 + 10 is read back as 4.\<close>

theorem fetch_add_then_load_witness:
  "LENGTH(8) \<in> {8::nat, 16, 32, 64} \<and>
   fst (mtk_atomic_fetch_add MSVC (250 :: 8 word) 10 SeqCst) = 250 \<and>
   unat (fst (mtk_atomic_load MSVC (snd (mtk_atomic_fetch_add MSVC (250 :: 8 word) 10 SeqCst))
     Acquire)) = 4 \<and>
   unat (fst (mtk_atomic_load GCC (snd (mtk_atomic_fetch_add GCC (250 :: 8 word) 10 SeqCst))
     Acquire)) = 4"
proof -
  have w: "LENGTH(8) \<in> {8::nat, 16, 32, 64}" by simp
  show ?thesis
    using w
      fetch_add_then_load [OF w, of MSVC 250 10 SeqCst Acquire]
      fetch_add_then_load [OF w, of GCC 250 10 SeqCst Acquire]
    by simp
qed

section \<open>Store followed by a load\<close>

text \<open>
  C8: on either toolchain, for every width class, every value \<open>v\<close> and every ordering of
  the store and of the load, a store of \<open>v\<close> followed by a load returns \<open>v\<close>, whatever
  the location held before.
\<close>

theorem store_load_roundtrip:
  fixes ptr v :: "'a::len word"
  assumes "LENGTH('a) \<in> {8, 16, 32, 64}"
  shows "fst (mtk_atomic_load tc (mtk_atomic_store tc ptr v write_order) read_order) = v"
  using assms by (simp add: mtk_atomic_load_eq mtk_atomic_store_eq)

text \<open>C8 at an 8-byte location holding 3, with all bits of the stored value set.\<close>

theorem store_load_roundtrip_witness:
  "LENGTH(64) \<in> {8::nat, 16, 32, 64} \<and>
   fst (mtk_atomic_load MSVC (mtk_atomic_store MSVC (3 :: 64 word) 0xFFFFFFFFFFFFFFFF Release)
     Acquire) = 0xFFFFFFFFFFFFFFFF \<and>
   fst (mtk_atomic_load GCC (mtk_atomic_store GCC (3 :: 64 word) 0xFFFFFFFFFFFFFFFF Relaxed)
     SeqCst) = 0xFFFFFFFFFFFFFFFF"
proof -
  have w: "LENGTH(64) \<in> {8::nat, 16, 32, 64}" by simp
  show ?thesis
    using w
      store_load_roundtrip [OF w, of MSVC 3 "0xFFFFFFFFFFFFFFFF" Release Acquire]
      store_load_roundtrip [OF w, of GCC 3 "0xFFFFFFFFFFFFFFFF" Relaxed SeqCst]
    by simp
qed

section \<open>A load leaves the location as it is\<close>

text \<open>
  C9: on either toolchain, for every width class, ordering and value \<open>v\<close> of the location,
  a load returns \<open>v\<close> and the location still holds \<open>v\<close>; this holds of the MSVC load in
  particular, which ORs zero into the location. A compare\_exchange that expects \<open>v\<close> and
  runs after the load therefore succeeds as it would without the load.
\<close>

theorem load_preserves_value:
  fixes v desired :: "'a::len word"
  assumes "LENGTH('a) \<in> {8, 16, 32, 64}"
  shows "mtk_atomic_load tc v order = (v, v) \<and>
         msvc_atomic_load v order = (v, v) \<and>
         mtk_atomic_compare_exchange tc (snd (mtk_atomic_load tc v order)) v desired
           success_order failure_order = (True, desired, v)"
  using assms
  by (simp add: mtk_atomic_load_eq msvc_atomic_load_eq mtk_atomic_compare_exchange_eq)

text \<open>C9 at a 4-byte location holding 41.\<close>

theorem load_preserves_value_witness:
  "LENGTH(32) \<in> {8::nat, 16, 32, 64} \<and>
   mtk_atomic_load MSVC (41 :: 32 word) Relaxed = (41, 41) \<and>
   msvc_atomic_load (41 :: 32 word) SeqCst = (41, 41) \<and>
   mtk_atomic_compare_exchange MSVC (snd (mtk_atomic_load MSVC (41 :: 32 word) Relaxed)) 41 42
     SeqCst Relaxed = (True, 42, 41)"
proof -
  have w: "LENGTH(32) \<in> {8::nat, 16, 32, 64}" by simp
  show ?thesis
    using w
      load_preserves_value [OF w, of MSVC 41 Relaxed 42 SeqCst Relaxed]
      load_preserves_value [OF w, of MSVC 41 SeqCst 42 SeqCst Relaxed]
    by blast
qed

section \<open>The ordering table of the compatibility shim\<close>

lemmas atomic_order_codes =
  ATOMIC_RELAXED_def ATOMIC_CONSUME_def ATOMIC_ACQUIRE_def
  ATOMIC_RELEASE_def ATOMIC_ACQ_REL_def ATOMIC_SEQ_CST_def

lemma mtk_map_gcc_order_roundtrip: "mtk_map_gcc_order (to_gcc_order order) = order"
  by (cases order) (simp_all add: mtk_map_gcc_order_def to_gcc_order_def atomic_order_codes)

text \<open>
  C5, as stated, fails at the code 1: \<open>__ATOMIC_CONSUME\<close> has no \<open>case\<close> label in the
  \<open>switch\<close>, so it takes the \<open>default\<close> and becomes \<open>SeqCst\<close>, not \<open>Acquire\<close>.
\<close>

theorem mtk_map_gcc_order_consume_counterexample:
  "mtk_map_gcc_order 1 = SeqCst \<and> mtk_map_gcc_order 1 \<noteq> Acquire"
  by (simp add: mtk_map_gcc_order_def atomic_order_codes)

text \<open>
  C5, amended: \<open>mtk_map_gcc_order\<close> maps 0 to \<open>Relaxed\<close>, 2 to \<open>Acquire\<close>, 3 to
  \<open>Release\<close>, 4 to \<open>AcqRel\<close>, 5 to \<open>SeqCst\<close>, and every other integer code, the
  code 1 of Consume among them, to the strongest ordering \<open>SeqCst\<close>.
\<close>

theorem mtk_map_gcc_order_table:
  "mtk_map_gcc_order 0 = Relaxed \<and> mtk_map_gcc_order 2 = Acquire \<and>
   mtk_map_gcc_order 3 = Release \<and> mtk_map_gcc_order 4 = AcqRel \<and>
   mtk_map_gcc_order 5 = SeqCst \<and>
   (\<forall>c. c \<notin> {0, 2, 3, 4, 5} \<longrightarrow> mtk_map_gcc_order c = SeqCst)"
  by (simp add: mtk_map_gcc_order_def atomic_order_codes)

text \<open>C5, amended, at the codes 1 and \<open>-7\<close>, which have no label, and at the code 2.\<close>

theorem mtk_map_gcc_order_table_witness:
  "(1::int) \<notin> {0, 2, 3, 4, 5} \<and> mtk_map_gcc_order 1 = SeqCst \<and>
   (-7::int) \<notin> {0, 2, 3, 4, 5} \<and> mtk_map_gcc_order (-7) = SeqCst \<and>
   mtk_map_gcc_order 2 = Acquire"
  using mtk_map_gcc_order_table by simp

section \<open>The lowest set bit\<close>

lemma trailing_zeros_lowest:
  "\<exists>i<n. bit x i \<Longrightarrow>
   trailing_zeros n x < n \<and> bit x (trailing_zeros n x) \<and> (\<forall>j<trailing_zeros n x. \<not> bit x j)"
proof (induction n arbitrary: x)
  case 0
  then show ?case by simp
next
  case (Suc n)
  show ?case
  proof (cases "bit x 0")
    case True
    then show ?thesis by simp
  next
    case False
    from Suc.prems obtain i where i: "i < Suc n" "bit x i" by blast
    with False obtain k where k: "i = Suc k" by (cases i) auto
    with i have "\<exists>i<n. bit (drop_bit 1 x) i"
      by (auto simp add: bit_drop_bit_eq intro!: exI [of _ k])
    from Suc.IH [OF this] have ih:
      "trailing_zeros n (drop_bit 1 x) < n"
      "bit x (Suc (trailing_zeros n (drop_bit 1 x)))"
      "\<forall>j<trailing_zeros n (drop_bit 1 x). \<not> bit x (Suc j)"
      by (simp_all add: bit_drop_bit_eq)
    have "\<not> bit x j" if "j < Suc (trailing_zeros n (drop_bit 1 x))" for j
      using that False ih(3) by (cases j) auto
    with False ih show ?thesis by simp
  qed
qed

lemma word64_nonzero_bit:
  fixes x :: "64 word"
  assumes "x \<noteq> 0"
  shows "\<exists>i<64. bit x i"
proof -
  from assms obtain i where "bit x i"
    by (auto simp add: bit_eq_iff)
  moreover from this have "i < 64"
    using bit_imp_le_length [of x i] by simp
  ultimately show ?thesis by blast
qed

text \<open>
  For a nonzero operand both toolchains return the position of the lowest set bit, 3 for
  \<open>0b1000\<close>.
\<close>

lemma lowest_set_bit_64_nonzero:
  assumes "x \<noteq> 0"
  shows "\<exists>i<64. lowest_set_bit_64 tc x = Some (int i) \<and> bit x i \<and> (\<forall>j<i. \<not> bit x j)"
  using assms trailing_zeros_lowest [OF word64_nonzero_bit [OF assms]]
  by (cases tc)
    (auto simp add: lowest_set_bit_64_def BitScanForward64_def builtin_ctzll_def)

lemma lowest_set_bit_64_example: "lowest_set_bit_64 tc 8 = Some 3"
proof -
  have "trailing_zeros 64 (8 :: 64 word) = 3" by code_simp
  then show ?thesis
    by (cases tc) (simp_all add: lowest_set_bit_64_def BitScanForward64_def builtin_ctzll_def)
qed

text \<open>
  C3: \<open>lowest_set_bit_64\<close> of the all-zero operand is to be the sentinel 64 on every
  toolchain. The MSVC branch tests the result of the scan and returns 64. The GCC/Clang
  branch passes the operand to \<open>__builtin_ctzll\<close> untested, and the builtin has no defined
  result for zero: on that toolchain the function does not return the sentinel.
\<close>

theorem lowest_set_bit_64_zero:
  "lowest_set_bit_64 MSVC 0 = Some 64 \<and> lowest_set_bit_64 GCC 0 = None"
  by (simp add: lowest_set_bit_64_def BitScanForward64_def builtin_ctzll_def)

section \<open>The integer logarithm\<close>

lemma log2_nonpositive: "x \<le>s 1 \<Longrightarrow> log2 x = 0"
  by (subst log2.simps) simp

lemma log2_bounds:
  "1 \<le> sint x \<Longrightarrow>
   0 \<le> log2 x \<and> 2 ^ nat (log2 x) \<le> sint x \<and> sint x < 2 ^ (nat (log2 x) + 1)"
proof (induction x rule: log2.induct)
  case (1 x)
  show ?case
  proof (cases "x \<le>s 1")
    case True
    with "1.prems" have "sint x = 1" by (simp add: word_sle_eq)
    with True show ?thesis by (simp add: log2_nonpositive)
  next
    case False
    then have gt: "1 < sint x" by (simp add: word_sle_eq)
    define y where "y = signed_drop_bit 1 x"
    have half: "sint y = sint x div 2"
      by (simp add: y_def sint_signed_drop_bit_eq drop_bit_eq_div)
    with gt have "1 \<le> sint y" by simp
    then have "0 \<le> log2 y \<and> 2 ^ nat (log2 y) \<le> sint y \<and> sint y < 2 ^ (nat (log2 y) + 1)"
      unfolding y_def by (rule "1.IH" [OF False])
    then have ih: "0 \<le> log2 y" "2 ^ nat (log2 y) \<le> sint x div 2"
      "sint x div 2 < 2 * 2 ^ nat (log2 y)"
      unfolding half by simp_all
    have eq: "log2 x = 1 + log2 y"
      unfolding y_def using False by (subst log2.simps) simp
    have n: "nat (log2 x) = Suc (nat (log2 y))"
      using ih(1) by (simp add: eq nat_add_distrib)
    have "2 * 2 ^ nat (log2 y) \<le> sint x" "sint x < 2 * (2 * 2 ^ nat (log2 y))"
      using ih(2,3) by linarith+
    moreover have "0 \<le> log2 x"
      using ih(1) by (simp add: eq)
    ultimately show ?thesis
      unfolding n by simp
  qed
qed

lemma log2_floor_log:
  assumes "1 \<le> sint x"
  shows "log2 x = \<lfloor>log 2 (real_of_int (sint x))\<rfloor>"
proof -
  define m where "m = nat (log2 x)"
  from log2_bounds [OF assms] have k: "log2 x = int m"
    and lo: "2 ^ m \<le> sint x" and hi: "sint x < 2 ^ (m + 1)"
    by (simp_all add: m_def)
  have "real_of_int (2 ^ m) \<le> real_of_int (sint x)"
    using lo by (simp only: of_int_le_iff)
  then have lo': "2 powr real m \<le> real_of_int (sint x)"
    by (simp add: powr_realpow)
  have "real_of_int (sint x) < real_of_int (2 ^ (m + 1))"
    using hi by (simp only: of_int_less_iff)
  then have hi': "real_of_int (sint x) < 2 powr (real m + 1)"
    by (simp add: powr_realpow powr_add)
  from assms have "0 < sint x" by linarith
  then have pos: "0 < real_of_int (sint x)"
    by (simp only: of_int_0_less_iff)
  have "\<lfloor>log 2 (real_of_int (sint x))\<rfloor> = int m"
    using pos lo' hi' by (subst floor_log_eq_powr_iff) simp_all
  then show ?thesis by (simp add: k)
qed

lemma log2_le_30: "log2 x \<le> 30"
proof (cases "1 \<le> sint x")
  case True
  from log2_bounds [OF True] have b: "0 \<le> log2 x" "2 ^ nat (log2 x) \<le> sint x" by simp_all
  have "sint x < 2 ^ 31" using sint_lt [of x] by simp
  with b(2) have "(2::int) ^ nat (log2 x) < 2 ^ 31" by linarith
  then have "nat (log2 x) < 31" by (rule power_less_imp_less_exp [rotated]) simp
  then show ?thesis by simp
next
  case False
  then have "x \<le>s 1" by (simp add: word_sle_eq)
  then show ?thesis by (simp add: log2_nonpositive)
qed

lemma log2_nonneg: "0 \<le> log2 x"
proof (cases "1 \<le> sint x")
  case True
  from log2_bounds [OF True] show ?thesis by simp
next
  case False
  then have "x \<le>s 1" by (simp add: word_sle_eq)
  then show ?thesis by (simp add: log2_nonpositive)
qed

lemma log2_argument_decreases:
  fixes x :: "32 word"
  assumes "\<not> x \<le>s 1"
  shows "0 < sint (signed_drop_bit 1 x) \<and> sint (signed_drop_bit 1 x) < sint x"
  using assms by (simp add: word_sle_eq sint_signed_drop_bit_eq drop_bit_eq_div) linarith

text \<open>
  C10: \<open>log2\<close> is total (its recursion is well-founded by the termination proof above:
  where it recurses, the argument \<open>x >> 1\<close> is positive and smaller than \<open>x\<close>). For every
  \<open>x \<le> 1\<close>, zero and the negative numbers included, it is 0 by the first branch, with no
  recursive call; for every \<open>x \<ge> 1\<close> it is the floor of the logarithm of \<open>x\<close> to the
  base 2. The result lies between 0 and 30, so that \<open>1 + log2(x >> 1)\<close> does not overflow.
\<close>

theorem log2_total_floor:
  "(x \<le>s 1 \<longrightarrow> log2 x = 0) \<and>
   (1 \<le>s x \<longrightarrow> log2 x = \<lfloor>log 2 (real_of_int (sint x))\<rfloor>) \<and>
   (\<not> x \<le>s 1 \<longrightarrow> log2 x = 1 + log2 (signed_drop_bit 1 x) \<and>
      0 < sint (signed_drop_bit 1 x) \<and> sint (signed_drop_bit 1 x) < sint x) \<and>
   0 \<le> log2 x \<and> log2 x \<le> 30"
proof -
  have "log2 x = 1 + log2 (signed_drop_bit 1 x)" if "\<not> x \<le>s 1"
    using that by (subst log2.simps) simp
  moreover have "log2 x = \<lfloor>log 2 (real_of_int (sint x))\<rfloor>" if "1 \<le>s x"
    using that by (intro log2_floor_log) (simp add: word_sle_eq)
  ultimately show ?thesis
    using log2_nonpositive [of x] log2_argument_decreases [of x] log2_nonneg [of x]
      log2_le_30 [of x]
    by blast
qed

text \<open>C10 at 8, at \<open>-5\<close> and at 0.\<close>

theorem log2_total_floor_witness:
  "(8 :: 32 word) \<le>s 1 = False \<and> 1 \<le>s (8 :: 32 word) \<and> log2 8 = 3 \<and>
   \<lfloor>log 2 (real_of_int (sint (8 :: 32 word)))\<rfloor> = 3 \<and>
   (- 5 :: 32 word) \<le>s 1 \<and> log2 (- 5) = 0 \<and> (0 :: 32 word) \<le>s 1 \<and> log2 0 = 0"
proof -
  have a: "\<not> (8 :: 32 word) \<le>s 1" "1 \<le>s (8 :: 32 word)" "(- 5 :: 32 word) \<le>s 1"
    "(0 :: 32 word) \<le>s 1"
    by (simp_all add: word_sle_eq)
  have v: "log2 8 = 3" by code_simp
  show ?thesis
    using a v log2_total_floor [of 8] log2_total_floor [of "- 5"] log2_total_floor [of 0]
    by simp
qed

end
